theory Spec2Isabelle
  imports Complex_Main
begin

section \<open>Conventions of the embedding\<close>

text \<open>
  The program is a Metropolis Monte Carlo simulation of Lennard-Jones particles in a
  periodic cubic box, written with numpy. Three source files are embedded:
  \<^verbatim>\<open>mm_2019_ss_1_package/geom.py\<close> (class Geom), \<^verbatim>\<open>mm_2019_sss_1/energy.py\<close>
  (class Energy) and the two copies of \<^verbatim>\<open>mc.py\<close> (class MC), which differ only in
  \<^verbatim>\<open>get_energy\<close> and in what they write to the log.

  \<^item> numpy's float64 numbers are modelled by the reals: the rounding of each operation,
    overflow and underflow are outside the model. A statement that names an operation
    of the program (a sum, a product, a comparison) is about that operation as the
    program performs it. A statement whose truth depends on the rounding is made for
    every monotone rounding of the operations, or about the computed values themselves.
  \<^item> An energy may be nan: it is a \<open>real option\<close> with \<open>None\<close> for nan. The potential at
    squared distance zero is nan, every sum or difference with a nan is nan, and every
    comparison with a nan is false.
  \<^item> A box length of zero makes numpy divide by zero in \<^verbatim>\<open>wrap\<close> and in
    \<^verbatim>\<open>minimum_image_distance\<close>; the model has HOL's \<open>x / 0 = 0\<close> there, which carries
    no meaning, and the theorems that depend on it assume a box length other than zero.
  \<^item> Python exceptions are values of type \<open>error\<close>; a function that can raise returns
    \<open>error + 'a\<close>.
  \<^item> The draws of numpy's global random generator are inputs of the model.
  \<^item> A text file is the list of its lines and a line is the list of the numbers written
    on it; printing a number and parsing it back is taken to be exact.
  \<^item> The log file and the plot are not modelled, and \<^verbatim>\<open>run\<close> is modelled with
    \<^verbatim>\<open>save_snaps = False\<close>.
\<close>

datatype error = ValueError | TypeError | ZeroDivisionError | IndexError | FileNotFoundError

type_synonym vec = "real \<times> real \<times> real"

definition vmap :: "(real \<Rightarrow> real) \<Rightarrow> vec \<Rightarrow> vec" where
  "vmap f v = (case v of (x, y, z) \<Rightarrow> (f x, f y, f z))"

definition vadd :: "vec \<Rightarrow> vec \<Rightarrow> vec" where
  "vadd a b = (case a of (x, y, z) \<Rightarrow> case b of (x', y', z') \<Rightarrow> (x + x', y + y', z + z'))"

definition vsub :: "vec \<Rightarrow> vec \<Rightarrow> vec" where
  "vsub a b = (case a of (x, y, z) \<Rightarrow> case b of (x', y', z') \<Rightarrow> (x - x', y - y', z - z'))"

definition vsum :: "vec \<Rightarrow> real" where
  "vsum v = (case v of (x, y, z) \<Rightarrow> x + y + z)"

text \<open>\<^verbatim>\<open>np.round\<close> rounds to the nearest integer and a tie to the even neighbour.\<close>

definition np_round :: "real \<Rightarrow> real" where
  "np_round x =
     (let f = \<lfloor>x\<rfloor>; d = x - of_int f
      in if d < 1/2 then of_int f
         else if 1/2 < d then of_int f + 1
         else if even f then of_int f else of_int f + 1)"

text \<open>\<^verbatim>\<open>np.mod\<close> on integers: the sign follows the divisor, and a zero divisor gives 0
  (with a warning), where HOL's \<open>mod\<close> would give the dividend.\<close>

definition np_mod :: "int \<Rightarrow> int \<Rightarrow> int" where
  "np_mod a b = (if b = 0 then 0 else a mod b)"

text \<open>\<^verbatim>\<open>np.delete(xs, i)\<close> for an index in range.\<close>

definition np_delete :: "'a list \<Rightarrow> nat \<Rightarrow> 'a list" where
  "np_delete xs i = take i xs @ drop (Suc i) xs"

section \<open>geom.py: the periodic box\<close>

record geom =
  num_particles :: nat
  box_length :: real
  volume :: real
  coordinates :: "vec list"

type_synonym textfile = "real list list"
type_synonym filesystem = "string \<rightharpoonup> textfile"

text \<open>\<^verbatim>\<open>np.fromstring(lines[k], dtype=float, sep=',')[0]\<close>: the first number of line \<open>k\<close>.
  A missing line and a line without a number both raise IndexError.\<close>

definition fromstring0 :: "textfile \<Rightarrow> nat \<Rightarrow> error + real" where
  "fromstring0 lines k =
     (if k < length lines
      then (case lines ! k of [] \<Rightarrow> Inl IndexError | x # _ \<Rightarrow> Inr x)
      else Inl IndexError)"

text \<open>\<^verbatim>\<open>np.loadtxt(file_name, skiprows=2, usecols=(1,2,3))\<close>: the first two lines are
  skipped, blank lines are skipped, and of every other line the columns 1, 2 and 3 are
  kept (column 0 is not read). A line with fewer than four columns has no column 3 and
  the call raises (IndexError in the numpy releases of 2019, ValueError in later ones).\<close>

fun usecols :: "real list \<Rightarrow> error + vec" where
  "usecols (c0 # x # y # z # rest) = Inr (x, y, z)"
| "usecols row = Inl IndexError"

fun loadtxt_rows :: "textfile \<Rightarrow> error + vec list" where
  "loadtxt_rows [] = Inr []"
| "loadtxt_rows (row # rows) =
     (if row = [] then loadtxt_rows rows
      else case usecols row of
             Inl e \<Rightarrow> Inl e
           | Inr v \<Rightarrow> (case loadtxt_rows rows of Inl e \<Rightarrow> Inl e | Inr vs \<Rightarrow> Inr (v # vs)))"

definition loadtxt :: "textfile \<Rightarrow> error + vec list" where
  "loadtxt lines = loadtxt_rows (drop 2 lines)"

text \<open>\<^verbatim>\<open>coordinates.shape[0]\<close> of what loadtxt returned: loadtxt squeezes a single row
  into a one-dimensional array of its three numbers, whose first dimension is 3. (Such a
  box is kept here as its one row.)\<close>

definition shape0 :: "vec list \<Rightarrow> nat" where
  "shape0 rows = (if length rows = 1 then 3 else length rows)"

text \<open>\<^verbatim>\<open>Geom.generate_initial_state\<close>, which is all that \<^verbatim>\<open>Geom.__init__\<close> calls. The
  keyword arguments are options (None as in Python); \<open>rnd k\<close> is row \<open>k\<close> of
  \<^verbatim>\<open>np.random.rand(num_particles, 3)\<close>. The string comparison \<^verbatim>\<open>method is 'random'\<close>
  is modelled as equality.\<close>

definition generate_initial_state ::
  "filesystem \<Rightarrow> (nat \<Rightarrow> vec) \<Rightarrow> string \<Rightarrow> int option \<Rightarrow> real option \<Rightarrow> string option
     \<Rightarrow> error + geom" where
  "generate_initial_state fs rnd method num_particles_arg reduced_den file_name =
     (if method = ''random'' then
        (case num_particles_arg of
           None \<Rightarrow> Inl ValueError
         | Some n \<Rightarrow>
            (case reduced_den of
               None \<Rightarrow> Inl ValueError
             | Some den \<Rightarrow>
                 if den = 0 then Inl ZeroDivisionError
                 else if n < 0 then Inl ValueError
                 else
                   let L = root 3 (real_of_int n / den)
                   in Inr \<lparr>num_particles = nat n, box_length = L, volume = L ^ 3,
                           coordinates =
                             map (\<lambda>k. vmap (\<lambda>r. (1/2 - r) * L) (rnd k)) [0..<nat n]\<rparr>))
      else if method = ''file'' then
        (case file_name of
           None \<Rightarrow> Inl ValueError
         | Some path \<Rightarrow>
            (case fs path of
               None \<Rightarrow> Inl FileNotFoundError
             | Some lines \<Rightarrow>
                (case fromstring0 lines 0 of
                   Inl e \<Rightarrow> Inl e
                 | Inr L \<Rightarrow>
                    (case fromstring0 lines 1 of
                       Inl e \<Rightarrow> Inl e
                     | Inr n \<Rightarrow>
                        (case loadtxt lines of
                           Inl e \<Rightarrow> Inl e
                         | Inr rows \<Rightarrow>
                             if n \<noteq> real (shape0 rows) then Inl ValueError
                             else Inr \<lparr>num_particles = shape0 rows, box_length = L,
                                       volume = L ^ 3, coordinates = rows\<rparr>)))))
      else Inl TypeError)"

text \<open>\<^verbatim>\<open>Geom.minimum_image_distance\<close> for one point and for an array of points.\<close>

definition minimum_image_distance :: "geom \<Rightarrow> vec \<Rightarrow> vec \<Rightarrow> real" where
  "minimum_image_distance g r_i r_j =
     (let rij = vsub r_i r_j;
          rij = vmap (\<lambda>c. c - box_length g * np_round (c / box_length g)) rij
      in vsum (vmap (\<lambda>c. c ^ 2) rij))"

definition minimum_image_distances :: "geom \<Rightarrow> vec \<Rightarrow> vec list \<Rightarrow> real list" where
  "minimum_image_distances g r_i coords = map (minimum_image_distance g r_i) coords"

text \<open>\<^verbatim>\<open>Geom.wrap\<close>.\<close>

definition wrap :: "geom \<Rightarrow> vec \<Rightarrow> vec" where
  "wrap g v = vmap (\<lambda>c. c - box_length g * np_round (c / box_length g)) v"

text \<open>\<^verbatim>\<open>Geom.save_state\<close>: refuses an existing path, then writes the box length three
  times, the particle count, and \<^verbatim>\<open>np.savetxt(f, self.coordinates)\<close>, which writes the
  three coordinates of a particle on one line.\<close>

definition save_state :: "geom \<Rightarrow> string \<Rightarrow> filesystem \<Rightarrow> error + filesystem" where
  "save_state g file_name fs =
     (if fs file_name \<noteq> None then Inl ValueError
      else Inr (fs(file_name \<mapsto>
                  [box_length g, box_length g, box_length g]
                  # [real (num_particles g)]
                  # map (\<lambda>(x, y, z). [x, y, z]) (coordinates g))))"

section \<open>energy.py: the pair energy\<close>

text \<open>Sums and differences of energies that may be nan, and \<^verbatim>\<open>pot.sum()\<close>.\<close>

definition nan_add :: "real option \<Rightarrow> real option \<Rightarrow> real option" where
  "nan_add a b =
     (case a of None \<Rightarrow> None
      | Some x \<Rightarrow> (case b of None \<Rightarrow> None | Some y \<Rightarrow> Some (x + y)))"

definition nan_sub :: "real option \<Rightarrow> real option \<Rightarrow> real option" where
  "nan_sub a b =
     (case a of None \<Rightarrow> None
      | Some x \<Rightarrow> (case b of None \<Rightarrow> None | Some y \<Rightarrow> Some (x - y)))"

fun np_sum :: "real option list \<Rightarrow> real option" where
  "np_sum [] = Some 0"
| "np_sum (x # xs) = nan_add x (np_sum xs)"

text \<open>An Energy object keeps the cutoff, its square and a reference to the Geom object of
  the simulation; the functions below take that Geom as an argument.\<close>

record energy =
  cutoff :: real
  cutoff2 :: real

definition Energy_init :: "real \<Rightarrow> energy" where
  "Energy_init c = \<lparr>cutoff = c, cutoff2 = c ^ 2\<rparr>"

text \<open>\<^verbatim>\<open>Energy.lennard_jones_potential\<close> on one element of the array it is given. At
  \<open>rij2 = 0\<close> numpy computes \<open>1 / rij2 = inf\<close>, both powers are \<open>inf\<close>, and
  \<open>inf - inf\<close> is nan; it warns and raises nothing.\<close>

definition lennard_jones_potential :: "real \<Rightarrow> real option" where
  "lennard_jones_potential rij2 =
     (if rij2 = 0 then None
      else
        let sig_by_r6 = (1 / rij2) ^ 3;
            sig_by_r12 = sig_by_r6 ^ 2
        in Some (4 * (sig_by_r12 - sig_by_r6)))"

text \<open>Lines 18 and 19 of \<^verbatim>\<open>get_particle_energy\<close>, for whatever array \<open>rij2\<close> of
  squared distances line 17 has computed: \<^verbatim>\<open>red = np.delete(rij2, i_particle)\<close> and the
  array \<^verbatim>\<open>red[red < self.cutoff2]\<close> that is handed to
  \<^verbatim>\<open>lennard_jones_potential\<close>.\<close>

definition red_below_cutoff :: "real \<Rightarrow> nat \<Rightarrow> real list \<Rightarrow> real list" where
  "red_below_cutoff c2 i_particle rij2 =
     (let red = np_delete rij2 i_particle
      in filter (\<lambda>r. r < c2) red)"

definition red_within_cutoff :: "geom \<Rightarrow> energy \<Rightarrow> nat \<Rightarrow> vec list \<Rightarrow> real list" where
  "red_within_cutoff g en i_particle coords =
     (let r_i = coords ! i_particle;
          rij2 = minimum_image_distances g r_i coords
      in red_below_cutoff (cutoff2 en) i_particle rij2)"

definition get_particle_energy ::
  "geom \<Rightarrow> energy \<Rightarrow> nat \<Rightarrow> vec list \<Rightarrow> error + real option" where
  "get_particle_energy g en i_particle coords =
     (if i_particle < length coords
      then Inr (np_sum (map lennard_jones_potential (red_within_cutoff g en i_particle coords)))
      else Inl IndexError)"

fun sum_particle_energies ::
  "geom \<Rightarrow> energy \<Rightarrow> nat list \<Rightarrow> real option \<Rightarrow> error + real option" where
  "sum_particle_energies g en [] e_total = Inr e_total"
| "sum_particle_energies g en (i # is) e_total =
     (case get_particle_energy g en i (coordinates g) of
        Inl e \<Rightarrow> Inl e
      | Inr e_i \<Rightarrow> sum_particle_energies g en is (nan_add e_total e_i))"

definition calculate_total_pair_energy :: "geom \<Rightarrow> energy \<Rightarrow> error + real option" where
  "calculate_total_pair_energy g en =
     (case sum_particle_energies g en [0..<length (coordinates g)] (Some 0) of
        Inl e \<Rightarrow> Inl e
      | Inr e_total \<Rightarrow> Inr (map_option (\<lambda>e. e / 2) e_total))"

definition calculate_tail_correction :: "geom \<Rightarrow> energy \<Rightarrow> error + real" where
  "calculate_tail_correction g en =
     (if cutoff en = 0 then Inl ZeroDivisionError
      else
        let sig_by_cutoff3 = (1 / cutoff en) ^ 3;
            sig_by_cutoff9 = sig_by_cutoff3 ^ 3;
            e_correction = sig_by_cutoff9 - 3 * sig_by_cutoff3
        in Inr (e_correction *
                  (8 / 9 * pi * real (num_particles g) / volume g * real (num_particles g))))"

section \<open>mc.py: the Monte Carlo driver\<close>

text \<open>The fields of an MC object. \<open>Geom\<close> is \<^verbatim>\<open>self._Geom\<close> and \<open>Energy\<close> is
  \<^verbatim>\<open>self._Energy\<close>, whose own Geom attribute is the same object. The attribute
  \<^verbatim>\<open>freq\<close> is only read by the plot and is left out.\<close>

record mc =
  beta :: real
  n_trials :: nat
  n_accept :: nat
  max_displacement :: real
  tune_displacement :: bool
  energy_array :: "real option list"
  current_step :: nat
  Geom :: geom
  Energy :: energy

text \<open>\<^verbatim>\<open>MC.__init__\<close>, the same in both copies of mc.py. \<^verbatim>\<open>1./float(reduced_temp)\<close>
  raises ZeroDivisionError at zero; the comparison \<^verbatim>\<open>reduced_den < 0.0\<close> raises TypeError
  when \<^verbatim>\<open>reduced_den\<close> was left at None.\<close>

definition MC_init ::
  "filesystem \<Rightarrow> (nat \<Rightarrow> vec) \<Rightarrow> string \<Rightarrow> real \<Rightarrow> real \<Rightarrow> real \<Rightarrow> int option \<Rightarrow> string option
     \<Rightarrow> bool \<Rightarrow> real option \<Rightarrow> error + mc" where
  "MC_init fs rnd method reduced_temp max_displacement_arg cutoff_arg num_particles_arg
       file_name tune_displacement_arg reduced_den =
     (if reduced_temp = 0 then Inl ZeroDivisionError
      else
        case (if method = ''random''
              then generate_initial_state fs rnd method num_particles_arg reduced_den None
              else if method = ''file''
              then generate_initial_state fs rnd method None None file_name
              else Inl ValueError) of
          Inl e \<Rightarrow> Inl e
        | Inr g \<Rightarrow>
           (case reduced_den of
              None \<Rightarrow> Inl TypeError
            | Some den \<Rightarrow>
                if den < 0 \<or> reduced_temp < 0 then Inl ValueError
                else Inr \<lparr>beta = 1 / reduced_temp, n_trials = 0, n_accept = 0,
                          max_displacement = max_displacement_arg,
                          tune_displacement = tune_displacement_arg,
                          energy_array = [], current_step = 0,
                          Geom = g, Energy = Energy_init cutoff_arg\<rparr>))"

text \<open>\<^verbatim>\<open>MC._accept_or_reject\<close>; \<open>u\<close> is the value that \<^verbatim>\<open>np.random.rand(1)\<close> returns
  when the second branch calls it.\<close>

definition accept_or_reject :: "mc \<Rightarrow> real \<Rightarrow> real \<Rightarrow> bool" where
  "accept_or_reject s delta_e u =
     (if delta_e < 0 then True
      else
        let random_number = u;
            p_acc = exp (- beta s * delta_e)
        in if random_number < p_acc then True else False)"

text \<open>\<^verbatim>\<open>MC._accept_or_reject\<close> on an energy change that may be nan: then
  \<^verbatim>\<open>delta_e < 0.0\<close> is false, \<^verbatim>\<open>p_acc\<close> is nan, \<^verbatim>\<open>random_number < p_acc\<close> is
  false, and the result is False.\<close>

definition accept_or_reject_nan :: "mc \<Rightarrow> real option \<Rightarrow> real \<Rightarrow> bool" where
  "accept_or_reject_nan s delta_e u =
     (case delta_e of None \<Rightarrow> False | Some de \<Rightarrow> accept_or_reject s de u)"

text \<open>\<^verbatim>\<open>MC._adjust_displacement\<close>.\<close>

definition adjust_displacement :: "mc \<Rightarrow> error + mc" where
  "adjust_displacement s =
     (if n_trials s = 0 then Inl ZeroDivisionError
      else
        let acc_rate = real (n_accept s) / real (n_trials s);
            s1 = (if acc_rate < 38 / 100 then s\<lparr>max_displacement := max_displacement s * (8 / 10)\<rparr>
                  else if acc_rate > 42 / 100 then s\<lparr>max_displacement := max_displacement s * (12 / 10)\<rparr>
                  else s)
        in Inr (s1\<lparr>n_trials := 0, n_accept := 0\<rparr>))"

text \<open>\<^verbatim>\<open>MC.get_energy\<close> of mm\_2019\_ss\_1\_package/mc.py tests
  \<^verbatim>\<open>self._energy_array is None\<close>. The attribute is assigned \<^verbatim>\<open>np.array([])\<close> by
  \<^verbatim>\<open>__init__\<close> and the result of \<^verbatim>\<open>np.append\<close> by \<^verbatim>\<open>run\<close>, so it always holds an
  array and the test is false. \<^verbatim>\<open>MC.get_energy\<close> of mm\_2019\_sss\_1/mc.py tests the
  length of the array instead.\<close>

definition is_None :: "real option list \<Rightarrow> bool" where
  "is_None arr = False"

definition get_energy :: "mc \<Rightarrow> error + real option list" where
  "get_energy s = (if is_None (energy_array s) then Inl ValueError else Inr (energy_array s))"

definition get_energy_sss :: "mc \<Rightarrow> error + real option list" where
  "get_energy_sss s =
     (if length (energy_array s) = 0 then Inl ValueError else Inr (energy_array s))"

text \<open>The random draws of one step of \<^verbatim>\<open>MC.run\<close>: \<^verbatim>\<open>np.random.randint(num_particles)\<close>,
  \<^verbatim>\<open>np.random.rand(3)\<close>, and the draw of the acceptance test.\<close>

record draw =
  i_particle :: nat
  rand3 :: vec
  rand1 :: real

text \<open>The trial move of one step: lines 83 to 98 of \<^verbatim>\<open>MC.run\<close>. The local variable
  \<^verbatim>\<open>total_pair_energy\<close> of \<^verbatim>\<open>run\<close> is passed in and returned.\<close>

definition proposed_coordinate :: "mc \<Rightarrow> draw \<Rightarrow> vec" where
  "proposed_coordinate s d =
     (let random_displacement = vmap (\<lambda>r. (2 * r - 1) * max_displacement s) (rand3 d);
          old_coordinate = coordinates (Geom s) ! i_particle d
      in wrap (Geom s) (vadd old_coordinate random_displacement))"

definition trial_move :: "mc \<Rightarrow> real option \<Rightarrow> draw \<Rightarrow> error + mc \<times> real option" where
  "trial_move s total_pair_energy d =
     (let g = Geom s; i = i_particle d
      in case get_particle_energy g (Energy s) i (coordinates g) of
           Inl e \<Rightarrow> Inl e
         | Inr current_energy \<Rightarrow>
            let old_coordinate = coordinates g ! i;
                g1 = g\<lparr>coordinates := (coordinates g)[i := proposed_coordinate s d]\<rparr>
            in case get_particle_energy g1 (Energy s) i (coordinates g1) of
                 Inl e \<Rightarrow> Inl e
               | Inr proposed_energy \<Rightarrow>
                  let delta_e = nan_sub proposed_energy current_energy
                  in if accept_or_reject_nan s delta_e (rand1 d)
                     then Inr (s\<lparr>n_accept := n_accept s + 1, Geom := g1\<rparr>,
                               nan_add total_pair_energy delta_e)
                     else Inr (s\<lparr>Geom := g1\<lparr>coordinates := (coordinates g1)[i := old_coordinate]\<rparr>\<rparr>,
                               total_pair_energy))"

text \<open>One iteration of the loop of \<^verbatim>\<open>MC.run\<close>. \<^verbatim>\<open>np.random.randint(0)\<close> raises
  ValueError; the write into the energy array raises IndexError out of range.\<close>

definition mc_step ::
  "real \<Rightarrow> int \<Rightarrow> nat \<Rightarrow> draw \<Rightarrow> mc \<times> real option \<Rightarrow> error + mc \<times> real option" where
  "mc_step tail_correction freq i_step d st =
     (case st of (s, total_pair_energy) \<Rightarrow>
        let s1 = s\<lparr>current_step := current_step s + 1, n_trials := n_trials s + 1\<rparr>
        in if num_particles (Geom s1) = 0 then Inl ValueError
           else
             case trial_move s1 total_pair_energy d of
               Inl e \<Rightarrow> Inl e
             | Inr (s2, total_pair_energy') \<Rightarrow>
                let total_energy =
                      map_option (\<lambda>e. (e + tail_correction) / real (num_particles (Geom s2)))
                        total_pair_energy'
                in if current_step s2 < length (energy_array s2)
                   then
                     let s3 = s2\<lparr>energy_array := (energy_array s2)[current_step s2 := total_energy]\<rparr>
                     in if np_mod (int i_step + 1) freq = 0 \<and> tune_displacement s3
                        then (case adjust_displacement s3 of
                                Inl e \<Rightarrow> Inl e
                              | Inr s4 \<Rightarrow> Inr (s4, total_pair_energy'))
                        else Inr (s3, total_pair_energy')
                   else Inl IndexError)"

text \<open>The loop \<^verbatim>\<open>for i_step in range(1, n_steps + 1)\<close>, started at \<open>i_step = 1\<close> with
  \<open>n_steps\<close> iterations to go; \<open>draws i_step\<close> are the draws of iteration \<open>i_step\<close>.\<close>

fun run_loop ::
  "real \<Rightarrow> int \<Rightarrow> (nat \<Rightarrow> draw) \<Rightarrow> nat \<Rightarrow> nat \<Rightarrow> mc \<times> real option
     \<Rightarrow> error + mc \<times> real option" where
  "run_loop tail_correction freq draws i_step 0 st = Inr st"
| "run_loop tail_correction freq draws i_step (Suc k) st =
     (case mc_step tail_correction freq i_step (draws i_step) st of
        Inl e \<Rightarrow> Inl e
      | Inr st' \<Rightarrow> run_loop tail_correction freq draws (Suc i_step) k st')"

text \<open>\<^verbatim>\<open>MC.run\<close> up to the end of the loop; the result carries the final value of the
  local variable \<^verbatim>\<open>total_pair_energy\<close> beside the object.\<close>

definition run_state ::
  "(nat \<Rightarrow> draw) \<Rightarrow> nat \<Rightarrow> int \<Rightarrow> mc \<Rightarrow> error + mc \<times> real option" where
  "run_state draws n_steps freq s =
     (case calculate_tail_correction (Geom s) (Energy s) of
        Inl e \<Rightarrow> Inl e
      | Inr tail_correction \<Rightarrow>
         (case calculate_total_pair_energy (Geom s) (Energy s) of
            Inl e \<Rightarrow> Inl e
          | Inr total_pair_energy \<Rightarrow>
              let arr = (if current_step s = 0
                         then (energy_array s @ replicate (n_steps + 1) (Some 0))
                                [0 := total_pair_energy]
                         else energy_array s @ replicate n_steps (Some 0))
              in run_loop tail_correction freq draws 1 n_steps
                   (s\<lparr>energy_array := arr\<rparr>, total_pair_energy)))"

definition run :: "(nat \<Rightarrow> draw) \<Rightarrow> nat \<Rightarrow> int \<Rightarrow> mc \<Rightarrow> error + mc" where
  "run draws n_steps freq s =
     (case run_state draws n_steps freq s of Inl e \<Rightarrow> Inl e | Inr (s', e) \<Rightarrow> Inr s')"

section \<open>Auxiliary notions for the statements\<close>

text \<open>The map that \<^verbatim>\<open>wrap\<close> and \<^verbatim>\<open>minimum_image_distance\<close> apply to each
  component: \<open>c - length * round (c / length)\<close>.\<close>

definition wrap1 :: "real \<Rightarrow> real \<Rightarrow> real" where
  "wrap1 L c = c - L * np_round (c / L)"

text \<open>The periodic image \<open>q + k * length\<close> of a point, for an integer vector \<open>k\<close>.\<close>

definition image_shift :: "geom \<Rightarrow> vec \<Rightarrow> int \<times> int \<times> int \<Rightarrow> vec" where
  "image_shift g q k =
     (case q of (x, y, z) \<Rightarrow> case k of (k1, k2, k3) \<Rightarrow>
        (x + of_int k1 * box_length g, y + of_int k2 * box_length g,
         z + of_int k3 * box_length g))"

text \<open>Two points are periodic images of each other when their difference is a whole
  number of box lengths in every component.\<close>

definition is_whole :: "real \<Rightarrow> bool" where
  "is_whole x = (of_int \<lfloor>x\<rfloor> = x)"

definition periodic_images :: "geom \<Rightarrow> vec \<Rightarrow> vec \<Rightarrow> bool" where
  "periodic_images g p q =
     (case vsub p q of (x, y, z) \<Rightarrow>
        is_whole (x / box_length g) \<and> is_whole (y / box_length g)
        \<and> is_whole (z / box_length g))"

text \<open>\<^verbatim>\<open>Geom.wrap\<close> with the rounding of float64 made explicit: the quotient, the
  product and the difference are each followed by \<open>rnd\<close>, and \<^verbatim>\<open>np.round\<close> of a float
  is exact. The rounding to the nearest float64 is one such \<open>rnd\<close>; the identity gives
  \<open>wrap\<close>. What is used of a rounding is that it is monotone and leaves 0, 1/2 and -1/2
  as they are; a vector is representable when the rounding leaves its components as
  they are, which holds of every vector the program holds in an array.\<close>

definition wrap_rounded :: "(real \<Rightarrow> real) \<Rightarrow> geom \<Rightarrow> vec \<Rightarrow> vec" where
  "wrap_rounded rnd g v =
     vmap (\<lambda>c. rnd (c - rnd (box_length g * np_round (rnd (c / box_length g))))) v"

definition rounding :: "(real \<Rightarrow> real) \<Rightarrow> bool" where
  "rounding rnd = (mono rnd \<and> rnd 0 = 0 \<and> rnd (1/2) = 1/2 \<and> rnd (- (1/2)) = - (1/2))"


text \<open>A rounding that loses digits: to the nearest multiple of 1/1024, ties to even.\<close>

definition round_1024 :: "real \<Rightarrow> real" where
  "round_1024 x = np_round (1024 * x) / 1024"

text \<open>The closed and the half-open primary cell of the box.\<close>

definition in_closed_cell :: "geom \<Rightarrow> vec \<Rightarrow> bool" where
  "in_closed_cell g v =
     (case v of (x, y, z) \<Rightarrow>
        - box_length g / 2 \<le> x \<and> x \<le> box_length g / 2 \<and>
        - box_length g / 2 \<le> y \<and> y \<le> box_length g / 2 \<and>
        - box_length g / 2 \<le> z \<and> z \<le> box_length g / 2)"

definition in_cell :: "geom \<Rightarrow> vec \<Rightarrow> bool" where
  "in_cell g v =
     (case v of (x, y, z) \<Rightarrow>
        - box_length g / 2 \<le> x \<and> x < box_length g / 2 \<and>
        - box_length g / 2 \<le> y \<and> y < box_length g / 2 \<and>
        - box_length g / 2 \<le> z \<and> z < box_length g / 2)"

text \<open>The value that \<^verbatim>\<open>get_particle_energy\<close> returns for an index in range; the
  energy change \<^verbatim>\<open>delta_e\<close> that a trial move computes from it before and after
  moving the particle; and the decision \<^verbatim>\<open>accept\<close> of the trial move.\<close>

definition particle_energy :: "geom \<Rightarrow> energy \<Rightarrow> nat \<Rightarrow> vec list \<Rightarrow> real option" where
  "particle_energy g en i coords =
     np_sum (map lennard_jones_potential (red_within_cutoff g en i coords))"

definition trial_delta_e :: "mc \<Rightarrow> draw \<Rightarrow> real option" where
  "trial_delta_e s d =
     (let g = Geom s; i = i_particle d;
          moved = (coordinates g)[i := proposed_coordinate s d]
      in nan_sub (particle_energy (g\<lparr>coordinates := moved\<rparr>) (Energy s) i moved)
                 (particle_energy g (Energy s) i (coordinates g)))"

definition trial_accepted :: "mc \<Rightarrow> draw \<Rightarrow> bool" where
  "trial_accepted s d = accept_or_reject_nan s (trial_delta_e s d) (rand1 d)"

text \<open>The object after \<^verbatim>\<open>MC.run\<close> has extended the energy array, before the
  loop starts.\<close>

definition allocated :: "mc \<Rightarrow> nat \<Rightarrow> real option \<Rightarrow> mc" where
  "allocated s n_steps total_pair_energy =
     s\<lparr>energy_array :=
         (if current_step s = 0
          then (energy_array s @ replicate (n_steps + 1) (Some 0))[0 := total_pair_energy]
          else energy_array s @ replicate n_steps (Some 0))\<rparr>"


definition box10 :: geom where
  "box10 = \<lparr>num_particles = 2, box_length = 10, volume = 1000,
             coordinates = [(0, 0, 0), (5, 0, 0)]\<rparr>"

definition config_lines :: textfile where
  "config_lines = [[10], [2], [1, 0, 0, 0], [2, 5, 0, 0]]"

definition config_fs :: filesystem where
  "config_fs = [''config.txt'' \<mapsto> config_lines]"

definition rnd_half :: "nat \<Rightarrow> vec" where
  "rnd_half k = (1/2, 1/2, 1/2)"

definition engine :: "nat \<Rightarrow> nat \<Rightarrow> real option list \<Rightarrow> nat \<Rightarrow> mc" where
  "engine trials accepts arr step =
     \<lparr>beta = 1, n_trials = trials, n_accept = accepts, max_displacement = 1 / 10,
      tune_displacement = True, energy_array = arr, current_step = step,
      Geom = box10, Energy = Energy_init 1\<rparr>"

definition draw0 :: draw where
  "draw0 = \<lparr>i_particle = 0, rand3 = (1/2, 1/2, 1/2), rand1 = 1/2\<rparr>"

definition draws0 :: "nat \<Rightarrow> draw" where
  "draws0 k = draw0"

text \<open>Concrete inputs for a trial move that changes the energy: a box of edge 10 with
  two particles two apart, an engine on it at cutoff 3 and temperature 1 with a given
  maximum displacement, a draw that moves particle 0 to the left by the maximum
  displacement, and a draw that moves it to the right by half of it.\<close>

definition box_near :: geom where
  "box_near = \<lparr>num_particles = 2, box_length = 10, volume = 1000,
                coordinates = [(0, 0, 0), (2, 0, 0)]\<rparr>"

definition engine_near :: "real \<Rightarrow> mc" where
  "engine_near md =
     \<lparr>beta = 1, n_trials = 1, n_accept = 0, max_displacement = md,
      tune_displacement = True, energy_array = [Some 0, Some 0], current_step = 1,
      Geom = box_near, Energy = Energy_init 3\<rparr>"

definition draw_left :: "real \<Rightarrow> draw" where
  "draw_left u = \<lparr>i_particle = 0, rand3 = (0, 1/2, 1/2), rand1 = u\<rparr>"

definition draw_right :: "real \<Rightarrow> draw" where
  "draw_right u = \<lparr>i_particle = 0, rand3 = (3/4, 1/2, 1/2), rand1 = u\<rparr>"

section \<open>Rounding and the periodic image of one component\<close>

lemma np_round_bound: "\<bar>x - np_round x\<bar> \<le> 1/2"
  unfolding np_round_def Let_def by (auto; linarith)

lemma np_round_small:
  assumes "\<bar>x\<bar> \<le> 1/2"
  shows "np_round x = 0"
proof -
  have "\<lfloor>x\<rfloor> = 0 \<or> \<lfloor>x\<rfloor> = -1"
    using assms by (simp add: floor_eq_iff) linarith
  then show ?thesis
  proof
    assume "\<lfloor>x\<rfloor> = 0"
    then show ?thesis using assms unfolding np_round_def Let_def by auto
  next
    assume "\<lfloor>x\<rfloor> = -1"
    then show ?thesis using assms unfolding np_round_def Let_def by auto
  qed
qed

text \<open>A shift by an integer moves the rounded value with it, except at a tie, where the
  even neighbour may change sides; the distance to the rounded value is the same.\<close>

lemma np_round_shift:
  "\<bar>(x - of_int k) - np_round (x - of_int k)\<bar> = \<bar>x - np_round x\<bar>"
proof -
  have fl: "\<lfloor>x - of_int k\<rfloor> = \<lfloor>x\<rfloor> - k" by simp
  show ?thesis unfolding np_round_def Let_def fl by (auto; linarith)
qed

lemma wrap1_scaled: "L \<noteq> 0 \<Longrightarrow> wrap1 L c = L * (c / L - np_round (c / L))"
  by (simp add: wrap1_def algebra_simps)

lemma wrap1_bound:
  assumes "0 < L"
  shows "\<bar>wrap1 L c\<bar> \<le> L / 2"
proof -
  have "\<bar>wrap1 L c\<bar> = L * \<bar>c / L - np_round (c / L)\<bar>"
    using assms by (simp add: wrap1_scaled abs_mult)
  also have "\<dots> \<le> L * (1/2)"
    using assms np_round_bound [of "c / L"] by (intro mult_left_mono) auto
  finally show ?thesis by simp
qed

lemma wrap1_idem:
  assumes "0 < L"
  shows "wrap1 L (wrap1 L c) = wrap1 L c"
proof -
  have "\<bar>wrap1 L c / L\<bar> \<le> 1/2"
    using wrap1_bound [OF assms, of c] assms by (simp add: field_simps)
  then have "np_round (wrap1 L c / L) = 0" by (rule np_round_small)
  then show ?thesis by (simp add: wrap1_def)
qed

lemma wrap1_shift_sq:
  assumes "L \<noteq> 0"
  shows "(wrap1 L (c - of_int k * L))\<^sup>2 = (wrap1 L c)\<^sup>2"
proof -
  have e: "(c - of_int k * L) / L = c / L - of_int k"
    using assms by (simp add: field_simps)
  have "\<bar>wrap1 L (c - of_int k * L)\<bar>
          = \<bar>L\<bar> * \<bar>(c / L - of_int k) - np_round (c / L - of_int k)\<bar>"
    using assms by (simp add: wrap1_scaled e abs_mult)
  also have "\<dots> = \<bar>L\<bar> * \<bar>c / L - np_round (c / L)\<bar>"
    by (simp only: np_round_shift)
  also have "\<dots> = \<bar>wrap1 L c\<bar>"
    using assms by (simp add: wrap1_scaled abs_mult)
  finally show ?thesis by (metis power2_abs)
qed

lemma wrap_components:
  "wrap g (x, y, z) = (wrap1 (box_length g) x, wrap1 (box_length g) y, wrap1 (box_length g) z)"
  by (simp add: wrap_def vmap_def wrap1_def)

lemma mid_components:
  "minimum_image_distance g (x, y, z) (x', y', z') =
     (wrap1 (box_length g) (x - x'))\<^sup>2 + (wrap1 (box_length g) (y - y'))\<^sup>2
       + (wrap1 (box_length g) (z - z'))\<^sup>2"
  by (simp add: minimum_image_distance_def Let_def vmap_def vsub_def vsum_def wrap1_def)

section \<open>Wrapping (C7)\<close>





text \<open>The identity is a rounding, and so is the rounding to multiples of 1/1024, which
  changes 1/3.\<close>

lemma rounding_exact: "rounding (\<lambda>x. x)"
  by (simp add: rounding_def mono_def)

lemma wrap_rounded_exact: "wrap_rounded (\<lambda>x. x) g v = wrap g v"
  by (simp add: wrap_rounded_def wrap_def)



lemma round_1024_lossy: "round_1024 (1/3) = 341 / 1024"
  by (simp add: round_1024_def np_round_def)


text \<open>In exact arithmetic, that is with the identity for rounding, wrap maps every
  vector into the closed cell and is idempotent. With the rounding of float64 neither
  holds of every vector: at box length 0.3 the component 0.44999999999999996 is wrapped
  to -0.15000000000000002, outside the cell, and that to 0.14999999999999997.\<close>

lemma wrap_exact_idempotent_closed_cell:
  assumes "0 < box_length g"
  shows "wrap g (wrap g v) = wrap g v \<and> in_closed_cell g (wrap g v)"
proof -
  obtain x y z where v: "v = (x, y, z)" by (cases v) auto
  have b: "- box_length g / 2 \<le> wrap1 (box_length g) c \<and>
           wrap1 (box_length g) c \<le> box_length g / 2" for c
    using wrap1_bound [OF assms, of c] by arith
  show ?thesis
    unfolding v wrap_components in_closed_cell_def using b [of x] b [of y] b [of z]
    by (simp add: wrap1_idem [OF assms])
qed

section \<open>Minimum-image distance in exact arithmetic\<close>

text \<open>
  In exact arithmetic the squared minimum-image distance does not change when either
  point is shifted by a whole number of box lengths. With float64 the sum \<open>q + k * length\<close>
  and the operations that follow are rounded, and the two values agree only up to that
  rounding (the repository's test compares with \<^verbatim>\<open>np.isclose\<close>); the rounding is outside
  this embedding, so the lemma says nothing about exact equality of the program's floats.
\<close>

lemma minimum_image_distance_periodic_exact:
  assumes "box_length g \<noteq> 0"
  shows "minimum_image_distance g p (image_shift g q k) = minimum_image_distance g p q \<and>
         minimum_image_distance g (image_shift g p k) q = minimum_image_distance g p q"
proof -
  obtain x y z where p: "p = (x, y, z)" by (cases p) auto
  obtain x' y' z' where q: "q = (x', y', z')" by (cases q) auto
  obtain k1 k2 k3 where k: "k = (k1, k2, k3)" by (cases k) auto
  have a: "\<And>c c' j. c - (c' + of_int j * box_length g) = (c - c') - of_int j * box_length g"
    by simp
  have b: "\<And>c c' j. (c + of_int j * box_length g) - c'
                     = (c - c') - of_int (- j) * box_length g"
    by simp
  show ?thesis
    unfolding p q k image_shift_def prod.case mid_components a b
    by (simp only: wrap1_shift_sq [OF assms])
qed

section \<open>The unit tests of the repository, on the model\<close>

text \<open>The expected values of \<^verbatim>\<open>tests/test_mm_2019_ss_1_package.py\<close>, where the test
  builds a box of 1000 particles at density 1, or of one particle at density 0.001, the
  box length is 10.\<close>

lemma test_minimum_image_distance:
  "minimum_image_distance box10 (1, 0, 0) (9, 0, 0) = 2\<^sup>2"
  by (simp add: box10_def minimum_image_distance_def vmap_def vsub_def vsum_def np_round_def)

lemma test_individual_lj_potential:
  "lennard_jones_potential 2 = Some (4 * (1 / 64 - 1 / 8))"
  by (simp add: lennard_jones_potential_def power2_eq_square power3_eq_cube)

lemma test_get_particle_energy:
  "get_particle_energy box10 (Energy_init 3) 2
     [(4, 5, 5), (6, 5, 5), (5, 5, 5), (5, 4, 5), (5, 6, 5)] = Inr (Some 0)"
  by (simp add: get_particle_energy_def red_within_cutoff_def red_below_cutoff_def
      minimum_image_distances_def minimum_image_distance_def np_delete_def box10_def
      Energy_init_def vsub_def vmap_def vsum_def np_round_def lennard_jones_potential_def
      nan_add_def)

lemma test_wrap: "wrap box10 (11, 12, 13) = (1, 2, 3)"
  by (simp add: box10_def wrap_def vmap_def np_round_def)

lemma test_tail_correction:
  "calculate_tail_correction
     \<lparr>num_particles = 1000, box_length = 10, volume = 1000, coordinates = cs\<rparr> (Energy_init 1)
   = Inr ((- 2) * 8 / 9 * pi * 1000 / 1000 * 1000)"
  by (simp add: calculate_tail_correction_def Energy_init_def)

section \<open>The concrete inputs\<close>

lemma engine_fields:
  "beta (engine a b arr k) = 1"
  "n_trials (engine a b arr k) = a"
  "n_accept (engine a b arr k) = b"
  "max_displacement (engine a b arr k) = 1 / 10"
  "tune_displacement (engine a b arr k) = True"
  "energy_array (engine a b arr k) = arr"
  "current_step (engine a b arr k) = k"
  "Geom (engine a b arr k) = box10"
  "Energy (engine a b arr k) = Energy_init 1"
  by (simp_all add: engine_def)

lemma engine_updates:
  "(engine a b arr k)\<lparr>n_trials := a'\<rparr> = engine a' b arr k"
  "(engine a b arr k)\<lparr>n_accept := b'\<rparr> = engine a b' arr k"
  "(engine a b arr k)\<lparr>energy_array := arr'\<rparr> = engine a b arr' k"
  "(engine a b arr k)\<lparr>current_step := k'\<rparr> = engine a b arr k'"
  "(engine a b arr k)\<lparr>Geom := box10\<rparr> = engine a b arr k"
  by (simp_all add: engine_def)

lemma box10_fields:
  "num_particles box10 = 2" "box_length box10 = 10" "volume box10 = 1000"
  "coordinates box10 = [(0, 0, 0), (5, 0, 0)]"
  by (simp_all add: box10_def)

lemma load_config:
  "generate_initial_state config_fs rnd ''file'' None None (Some ''config.txt'') = Inr box10"
  by (simp add: generate_initial_state_def config_fs_def config_lines_def fromstring0_def
      loadtxt_def shape0_def box10_def)

lemma MC_init_config:
  "MC_init config_fs rnd ''file'' 1 (1 / 10) 1 None (Some ''config.txt'') True (Some 1)
     = Inr (engine 0 0 [] 0)"
  by (simp add: MC_init_def load_config engine_def)

section \<open>The acceptance test (C2)\<close>

text \<open>
  C2: a trial move with \<open>delta_e < 0\<close> is accepted whatever the draw; with
  \<open>0 \<le> delta_e\<close> it is accepted exactly when the draw \<open>u\<close> is below
  \<open>exp (- beta * delta_e)\<close>; and the decision depends on the engine only through
  \<open>beta\<close>, so it is a function of \<open>delta_e\<close>, \<open>beta\<close> and \<open>u\<close>.
\<close>

theorem accept_or_reject_metropolis:
  assumes "beta s' = beta s"
  shows "(delta_e < 0 \<longrightarrow> accept_or_reject s delta_e u) \<and>
         (0 \<le> delta_e \<longrightarrow>
            (accept_or_reject s delta_e u \<longleftrightarrow> u < exp (- beta s * delta_e))) \<and>
         accept_or_reject s' delta_e u = accept_or_reject s delta_e u"
  using assms by (simp add: accept_or_reject_def)

text \<open>Witness for C2: at \<open>beta = 1\<close> and the draw 9/10, the changes -1 and 0 are
  accepted and the change 1 is rejected, since \<open>exp (-1) \<le> 1/2\<close>.\<close>

theorem accept_or_reject_metropolis_witness:
  "beta (engine 5 2 [] 0) = beta (engine 0 0 [] 0) \<and>
   (-1::real) < 0 \<and> accept_or_reject (engine 0 0 [] 0) (-1) (9 / 10) \<and>
   (0::real) \<le> 0 \<and> accept_or_reject (engine 0 0 [] 0) 0 (9 / 10) \<and>
   (0::real) \<le> 1 \<and> \<not> accept_or_reject (engine 0 0 [] 0) 1 (9 / 10)"
proof -
  have e: "exp (- 1 :: real) < 9 / 10"
  proof -
    have "(2::real) \<le> exp 1" using exp_ge_add_one_self [of "1::real"] by simp
    then have "exp (- 1 :: real) \<le> 1 / 2"
      by (simp add: exp_minus field_simps)
    then show ?thesis by simp
  qed
  show ?thesis
    using accept_or_reject_metropolis [of "engine 5 2 [] 0" "engine 0 0 [] 0" "-1" "9 / 10"]
      accept_or_reject_metropolis [of "engine 5 2 [] 0" "engine 0 0 [] 0" 0 "9 / 10"]
      accept_or_reject_metropolis [of "engine 5 2 [] 0" "engine 0 0 [] 0" 1 "9 / 10"] e
    by (simp add: engine_fields)
qed

section \<open>The tuning rule (C5)\<close>

text \<open>
  C5: with \<open>n_trials > 0\<close>, \<^verbatim>\<open>_adjust_displacement\<close> returns normally; with the rate
  \<open>n_accept / n_trials\<close> it multiplies \<open>max_displacement\<close> by 0.8 when the rate is
  below 0.38, by 1.2 when it is above 0.42, and by nothing in between; both counters are
  zero afterwards and no other field changes.
\<close>

theorem adjust_displacement_rule:
  assumes "0 < n_trials s"
  shows "adjust_displacement s =
           Inr (s\<lparr>max_displacement :=
                    max_displacement s *
                      (if real (n_accept s) / real (n_trials s) < 38 / 100 then 8 / 10
                       else if 42 / 100 < real (n_accept s) / real (n_trials s) then 12 / 10
                       else 1),
                  n_trials := 0, n_accept := 0\<rparr>)"
  using assms by (simp add: adjust_displacement_def Let_def)

text \<open>Witness for C5: 100 trials with 30, 50 and 40 acceptances at
  \<open>max_displacement = 0.1\<close>.\<close>

theorem adjust_displacement_rule_witness:
  "0 < n_trials (engine 100 30 [] 0) \<and>
   adjust_displacement (engine 100 30 [] 0)
     = Inr ((engine 0 0 [] 0)\<lparr>max_displacement := 8 / 100\<rparr>) \<and>
   adjust_displacement (engine 100 50 [] 0)
     = Inr ((engine 0 0 [] 0)\<lparr>max_displacement := 12 / 100\<rparr>) \<and>
   adjust_displacement (engine 100 40 [] 0) = Inr (engine 0 0 [] 0)"
  using adjust_displacement_rule [of "engine 100 30 [] 0"]
    adjust_displacement_rule [of "engine 100 50 [] 0"]
    adjust_displacement_rule [of "engine 100 40 [] 0"]
  by (simp add: engine_def)

section \<open>Reading the energy before a run (C9)\<close>

text \<open>The copy in mm\_2019\_sss\_1 raises on every freshly constructed engine.\<close>

lemma get_energy_sss_fresh:
  assumes "MC_init fs rnd method reduced_temp md c n f t den = Inr s"
  shows "get_energy_sss s = Inl ValueError"
  using assms
  by (auto simp: MC_init_def get_energy_sss_def split: if_splits sum.splits option.splits)

text \<open>The copy in mm\_2019\_ss\_1\_package returns the empty array on every freshly
  constructed engine.\<close>

lemma get_energy_fresh:
  assumes "MC_init fs rnd method reduced_temp md c n f t den = Inr s"
  shows "get_energy s = Inr []"
  using assms
  by (auto simp: MC_init_def get_energy_def is_None_def split: if_splits sum.splits option.splits)

text \<open>
  C9 at a concrete input: the engine constructed from the configuration file, on which
  \<^verbatim>\<open>run\<close> was never called. \<^verbatim>\<open>get_energy\<close> of mm\_2019\_ss\_1\_package/mc.py returns
  the empty energy array and raises nothing.
\<close>

theorem get_energy_fresh_returns:
  "(case MC_init config_fs rnd_half ''file'' 1 (1 / 10) 1 None (Some ''config.txt'') True (Some 1)
    of Inl e \<Rightarrow> Inl e | Inr s \<Rightarrow> get_energy s) = Inr []"
  by (simp add: MC_init_config get_energy_def is_None_def engine_fields)

section \<open>Construction with zero density or temperature (C4)\<close>

text \<open>A negative temperature or density makes the construction fail.\<close>

lemma MC_init_negative:
  assumes "reduced_temp < 0 \<or> den < 0"
  shows "\<exists>e. MC_init fs rnd method reduced_temp md c n f t (Some den) = Inl e"
  using assms by (auto simp: MC_init_def split: sum.splits)

text \<open>A zero density with the random method, and a zero temperature, fail with
  ZeroDivisionError in a division, before the check of the arguments is reached.\<close>

lemma MC_init_zero_division:
  "MC_init fs rnd ''random'' 1 md c (Some 2) f t (Some 0) = Inl ZeroDivisionError"
  "MC_init fs rnd method 0 md c n f t den = Inl ZeroDivisionError"
  by (simp_all add: MC_init_def generate_initial_state_def)

text \<open>
  C4 at a concrete input: method \<^verbatim>\<open>'file'\<close> with the configuration file, reduced
  temperature 1 and reduced density exactly 0. The check \<^verbatim>\<open>reduced_den < 0.0\<close> does
  not fire and the construction succeeds.
\<close>

theorem MC_init_zero_density_accepted:
  "MC_init config_fs rnd_half ''file'' 1 (1 / 10) 1 None (Some ''config.txt'') True (Some 0)
     = Inr (engine 0 0 [] 0)"
  by (simp add: MC_init_def load_config engine_def)

section \<open>Saving and loading a snapshot (C3)\<close>

lemma loadtxt_rows_savetxt:
  "loadtxt_rows ((case v of (x, y, z) \<Rightarrow> [x, y, z]) # rows) = Inl IndexError"
  by (cases v) simp

text \<open>Whatever box with at least one particle is saved, loading the written file fails:
  the lines written by \<^verbatim>\<open>np.savetxt\<close> have three columns and the loader asks for the
  fourth.\<close>

lemma load_saved_fails:
  assumes "coordinates g \<noteq> []" and "save_state g path fs = Inr fs'"
  shows "generate_initial_state fs' rnd ''file'' a b (Some path) = Inl IndexError"
proof -
  obtain v vs where c: "coordinates g = v # vs"
    using assms(1) by (cases "coordinates g") auto
  have fs': "fs' path = Some ([box_length g, box_length g, box_length g]
                  # [real (num_particles g)]
                  # map (\<lambda>(x, y, z). [x, y, z]) (coordinates g))"
    using assms(2) by (auto simp: save_state_def split: if_splits)
  show ?thesis
    unfolding generate_initial_state_def
    by (simp add: fs' fromstring0_def loadtxt_def c loadtxt_rows_savetxt
        del: loadtxt_rows.simps)
qed

text \<open>
  C3 at a concrete input: the box of edge 10 with its two particles is saved to a path
  that does not exist, in an empty file system, and a Geom is constructed with method
  \<^verbatim>\<open>'file'\<close> from the written file. The save succeeds and the load raises.
\<close>

theorem save_then_load_fails:
  "(case save_state box10 ''snap.txt'' Map.empty of
      Inl e \<Rightarrow> Inl e
    | Inr fs' \<Rightarrow> generate_initial_state fs' rnd_half ''file'' None None (Some ''snap.txt''))
   = Inl IndexError"
  by (simp add: save_state_def box10_def generate_initial_state_def fromstring0_def loadtxt_def)

section \<open>The trial move (C6)\<close>

text \<open>For a particle index in range the trial move returns normally, and it has two
  outcomes only.\<close>

lemma trial_move_cases:
  assumes "i_particle d < length (coordinates (Geom s))"
  shows "trial_move s e d =
           (if trial_accepted s d
            then Inr (s\<lparr>n_accept := n_accept s + 1,
                        Geom := (Geom s)\<lparr>coordinates :=
                                  (coordinates (Geom s))[i_particle d := proposed_coordinate s d]\<rparr>\<rparr>,
                      nan_add e (trial_delta_e s d))
            else Inr (s, e))"
  using assms
  by (simp add: trial_move_def get_particle_energy_def Let_def trial_delta_e_def
      trial_accepted_def particle_energy_def)

text \<open>
  C6: in a box of nonzero length and for a particle index \<open>i\<close> in range, the trial move
  returns a state and an accumulator. With \<open>new\<close> the wrapped sum of the old coordinate
  and the random displacement, and \<open>delta_e\<close> the energy of particle \<open>i\<close> at \<open>new\<close> minus
  its energy at the old coordinate: the number of particles is unchanged; every particle
  other than \<open>i\<close> is where it was; if the acceptance test accepts \<open>delta_e\<close>, particle \<open>i\<close>
  is at \<open>new\<close> and the accumulator is the old one plus \<open>delta_e\<close>; if it rejects, which
  includes a \<open>delta_e\<close> that is nan, particle \<open>i\<close> is at its old coordinate and the
  accumulator is the old one.
\<close>

theorem trial_move_atomic:
  assumes "i_particle d < length (coordinates (Geom s))" and "box_length (Geom s) \<noteq> 0"
  shows "let g = Geom s; i = i_particle d; old = coordinates g ! i;
             new = wrap g (vadd old (vmap (\<lambda>r. (2 * r - 1) * max_displacement s) (rand3 d)));
             moved = (coordinates g)[i := new];
             delta_e = nan_sub (particle_energy (g\<lparr>coordinates := moved\<rparr>) (Energy s) i moved)
                               (particle_energy g (Energy s) i (coordinates g))
         in \<exists>s' e'. trial_move s e d = Inr (s', e') \<and>
              length (coordinates (Geom s')) = length (coordinates g) \<and>
              (\<forall>j < length (coordinates g). j \<noteq> i \<longrightarrow>
                   coordinates (Geom s') ! j = coordinates g ! j) \<and>
              (if accept_or_reject_nan s delta_e (rand1 d)
               then coordinates (Geom s') ! i = new \<and> e' = nan_add e delta_e
               else coordinates (Geom s') ! i = old \<and> e' = e)"
  using assms(1)
  by (simp add: trial_move_cases Let_def trial_accepted_def trial_delta_e_def
      proposed_coordinate_def)

text \<open>The three trial moves of the witness, piece by piece.\<close>

lemma box_near_fields:
  "coordinates box_near = [(0, 0, 0), (2, 0, 0)]" "box_length box_near = 10"
  by (simp_all add: box_near_def)

lemma engine_near_fields:
  "Geom (engine_near md) = box_near" "Energy (engine_near md) = Energy_init 3"
  "max_displacement (engine_near md) = md" "beta (engine_near md) = 1"
  by (simp_all add: engine_near_def)

lemma near_energy:
  "particle_energy (box_near\<lparr>coordinates := cs\<rparr>) (Energy_init 3) 0 [(0, 0, 0), (2, 0, 0)]
     = Some (- (63 / 1024))"
  "particle_energy (box_near\<lparr>coordinates := cs\<rparr>) (Energy_init 3) 0 [(- 1, 0, 0), (2, 0, 0)]
     = Some 0"
  "particle_energy (box_near\<lparr>coordinates := cs\<rparr>) (Energy_init 3) 0 [(2, 0, 0), (2, 0, 0)]
     = None"
  by (simp_all add: particle_energy_def red_within_cutoff_def red_below_cutoff_def
      minimum_image_distances_def minimum_image_distance_def np_delete_def box_near_def
      Energy_init_def vsub_def vmap_def vsum_def np_round_def lennard_jones_potential_def
      nan_add_def power_one_over)

lemma near_energy_start:
  "particle_energy box_near (Energy_init 3) 0 [(0, 0, 0), (2, 0, 0)] = Some (- (63 / 1024))"
  using near_energy(1) [of "[(0, 0, 0), (2, 0, 0)]"] by (simp add: box_near_def)

lemma near_wrap:
  "wrap box_near (vadd (0, 0, 0) (vmap (\<lambda>r. (2 * r - 1) * 1) (0, 1/2, 1/2))) = (- 1, 0, 0)"
  "wrap box_near (vadd (0, 0, 0) (vmap (\<lambda>r. (2 * r - 1) * 4) (3/4, 1/2, 1/2))) = (2, 0, 0)"
  by (simp_all add: wrap_def vadd_def vmap_def box_near_def np_round_def)

lemma exp_bounds: "1 / 2 < exp (- (63 / 1024) :: real)" "exp (- (63 / 1024) :: real) \<le> 99 / 100"
proof -
  show "1 / 2 < exp (- (63 / 1024) :: real)"
    using exp_ge_add_one_self [of "- (63 / 1024) :: real"] by simp
  have "1087 / 1024 \<le> exp (63 / 1024 :: real)"
    using exp_ge_add_one_self [of "63 / 1024 :: real"] by simp
  then have "inverse (exp (63 / 1024 :: real)) \<le> inverse (1087 / 1024)"
    by (intro le_imp_inverse_le) simp_all
  then show "exp (- (63 / 1024) :: real) \<le> 99 / 100"
    by (simp add: exp_minus)
qed

text \<open>Witness for C6: in the box of edge 10 with particles at \<open>(0, 0, 0)\<close> and
  \<open>(2, 0, 0)\<close> and cutoff 3, moving particle 0 to \<open>(-1, 0, 0)\<close> raises the energy by
  63/1024; with the draw 1/2 the move is accepted, particle 0 is at \<open>(-1, 0, 0)\<close> and the
  accumulator has grown by 63/1024; with the draw 99/100 it is rejected and particle 0 and
  the accumulator are as before. Moving particle 0 onto particle 1 makes the energy nan
  and is rejected, even with the draw 0.\<close>

theorem trial_move_atomic_witness:
  "i_particle (draw_left (1/2)) < length (coordinates (Geom (engine_near 1))) \<and>
   box_length (Geom (engine_near 1)) \<noteq> 0 \<and>
   (\<exists>s' e'. trial_move (engine_near 1) (Some 0) (draw_left (1/2)) = Inr (s', e') \<and>
      coordinates (Geom s') ! 0 = (- 1, 0, 0) \<and> coordinates (Geom s') ! 1 = (2, 0, 0) \<and>
      e' = Some (63 / 1024)) \<and>
   (\<exists>s' e'. trial_move (engine_near 1) (Some 0) (draw_left (99/100)) = Inr (s', e') \<and>
      coordinates (Geom s') ! 0 = (0, 0, 0) \<and> coordinates (Geom s') ! 1 = (2, 0, 0) \<and>
      e' = Some 0) \<and>
   (\<exists>s' e'. trial_move (engine_near 4) (Some 0) (draw_right 0) = Inr (s', e') \<and>
      coordinates (Geom s') ! 0 = (0, 0, 0) \<and> coordinates (Geom s') ! 1 = (2, 0, 0) \<and>
      e' = Some 0)"
proof -
  have h: "i_particle d < length (coordinates (Geom s))" "box_length (Geom s) \<noteq> 0"
    if "i_particle d = 0" "Geom s = box_near" for d s
    using that by (simp_all add: box_near_fields)
  have a: "\<exists>s' e'. trial_move (engine_near 1) (Some 0) (draw_left (1/2)) = Inr (s', e') \<and>
      coordinates (Geom s') ! 0 = (- 1, 0, 0) \<and> coordinates (Geom s') ! 1 = (2, 0, 0) \<and>
      e' = Some (63 / 1024)"
  proof -
    let ?s = "engine_near 1" and ?d = "draw_left (1/2)"
    let ?g = "Geom ?s" and ?i = "i_particle ?d"
    let ?old = "coordinates ?g ! ?i"
    let ?new = "wrap ?g (vadd ?old (vmap (\<lambda>r. (2 * r - 1) * max_displacement ?s) (rand3 ?d)))"
    let ?moved = "(coordinates ?g)[?i := ?new]"
    let ?delta = "nan_sub (particle_energy (?g\<lparr>coordinates := ?moved\<rparr>) (Energy ?s) ?i ?moved)
                          (particle_energy ?g (Energy ?s) ?i (coordinates ?g))"
    have i0: "?i = 0" by (simp add: draw_left_def draw_right_def)
    have g: "?g = box_near" by (simp add: engine_near_fields)
    have old: "?old = (0, 0, 0)"
      by (simp add: i0 engine_near_fields box_near_fields)
    have new: "?new = (- 1, 0, 0)"
      unfolding old
      by (simp add: engine_near_fields draw_left_def draw_right_def wrap_def vadd_def vmap_def
          box_near_def np_round_def)
    have delta: "?delta = Some (63 / 1024)"
      unfolding new
      unfolding i0
      by (simp add: engine_near_fields box_near_fields near_energy near_energy_start
          nan_sub_def)
    have ac: "accept_or_reject_nan ?s ?delta (rand1 ?d)"
      unfolding delta using exp_bounds(1)
      by (simp add: accept_or_reject_nan_def accept_or_reject_def engine_near_fields
          draw_left_def draw_right_def)
    obtain s' e' where r: "trial_move ?s (Some 0) ?d = Inr (s', e')"
      and f: "\<forall>j < length (coordinates ?g). j \<noteq> ?i \<longrightarrow>
                coordinates (Geom s') ! j = coordinates ?g ! j"
      and b: "if accept_or_reject_nan ?s ?delta (rand1 ?d)
              then coordinates (Geom s') ! ?i = ?new \<and> e' = nan_add (Some 0) ?delta
              else coordinates (Geom s') ! ?i = ?old \<and> e' = Some 0"
      using trial_move_atomic [OF h(1) [OF i0 g] h(2) [OF i0 g], of "Some 0"]
      unfolding Let_def by blast
    have "coordinates (Geom s') ! 1 = (2, 0, 0)"
      using f by (simp add: i0 engine_near_fields box_near_fields)
    moreover have "coordinates (Geom s') ! 0 = (- 1, 0, 0) \<and> e' = Some (63 / 1024)"
      using b ac
      unfolding delta
      unfolding new
      unfolding old
      unfolding i0
      by (simp add: nan_add_def)
    ultimately show ?thesis using r by blast
  qed
  have b: "\<exists>s' e'. trial_move (engine_near 1) (Some 0) (draw_left (99/100)) = Inr (s', e') \<and>
      coordinates (Geom s') ! 0 = (0, 0, 0) \<and> coordinates (Geom s') ! 1 = (2, 0, 0) \<and>
      e' = Some 0"
  proof -
    let ?s = "engine_near 1" and ?d = "draw_left (99/100)"
    let ?g = "Geom ?s" and ?i = "i_particle ?d"
    let ?old = "coordinates ?g ! ?i"
    let ?new = "wrap ?g (vadd ?old (vmap (\<lambda>r. (2 * r - 1) * max_displacement ?s) (rand3 ?d)))"
    let ?moved = "(coordinates ?g)[?i := ?new]"
    let ?delta = "nan_sub (particle_energy (?g\<lparr>coordinates := ?moved\<rparr>) (Energy ?s) ?i ?moved)
                          (particle_energy ?g (Energy ?s) ?i (coordinates ?g))"
    have i0: "?i = 0" by (simp add: draw_left_def draw_right_def)
    have g: "?g = box_near" by (simp add: engine_near_fields)
    have old: "?old = (0, 0, 0)"
      by (simp add: i0 engine_near_fields box_near_fields)
    have new: "?new = (- 1, 0, 0)"
      unfolding old
      by (simp add: engine_near_fields draw_left_def draw_right_def wrap_def vadd_def vmap_def
          box_near_def np_round_def)
    have delta: "?delta = Some (63 / 1024)"
      unfolding new
      unfolding i0
      by (simp add: engine_near_fields box_near_fields near_energy near_energy_start
          nan_sub_def)
    have ac: "\<not> accept_or_reject_nan ?s ?delta (rand1 ?d)"
      unfolding delta using exp_bounds(2)
      by (simp add: accept_or_reject_nan_def accept_or_reject_def engine_near_fields
          draw_left_def draw_right_def)
    obtain s' e' where r: "trial_move ?s (Some 0) ?d = Inr (s', e')"
      and f: "\<forall>j < length (coordinates ?g). j \<noteq> ?i \<longrightarrow>
                coordinates (Geom s') ! j = coordinates ?g ! j"
      and b: "if accept_or_reject_nan ?s ?delta (rand1 ?d)
              then coordinates (Geom s') ! ?i = ?new \<and> e' = nan_add (Some 0) ?delta
              else coordinates (Geom s') ! ?i = ?old \<and> e' = Some 0"
      using trial_move_atomic [OF h(1) [OF i0 g] h(2) [OF i0 g], of "Some 0"]
      unfolding Let_def by blast
    have "coordinates (Geom s') ! 1 = (2, 0, 0)"
      using f by (simp add: i0 engine_near_fields box_near_fields)
    moreover have "coordinates (Geom s') ! 0 = (0, 0, 0) \<and> e' = Some 0"
      using b ac
      unfolding delta
      unfolding new
      unfolding old
      unfolding i0
      by (simp add: nan_add_def)
    ultimately show ?thesis using r by blast
  qed
  have c: "\<exists>s' e'. trial_move (engine_near 4) (Some 0) (draw_right 0) = Inr (s', e') \<and>
      coordinates (Geom s') ! 0 = (0, 0, 0) \<and> coordinates (Geom s') ! 1 = (2, 0, 0) \<and>
      e' = Some 0"
  proof -
    let ?s = "engine_near 4" and ?d = "draw_right 0"
    let ?g = "Geom ?s" and ?i = "i_particle ?d"
    let ?old = "coordinates ?g ! ?i"
    let ?new = "wrap ?g (vadd ?old (vmap (\<lambda>r. (2 * r - 1) * max_displacement ?s) (rand3 ?d)))"
    let ?moved = "(coordinates ?g)[?i := ?new]"
    let ?delta = "nan_sub (particle_energy (?g\<lparr>coordinates := ?moved\<rparr>) (Energy ?s) ?i ?moved)
                          (particle_energy ?g (Energy ?s) ?i (coordinates ?g))"
    have i0: "?i = 0" by (simp add: draw_left_def draw_right_def)
    have g: "?g = box_near" by (simp add: engine_near_fields)
    have old: "?old = (0, 0, 0)"
      by (simp add: i0 engine_near_fields box_near_fields)
    have new: "?new = (2, 0, 0)"
      unfolding old
      by (simp add: engine_near_fields draw_left_def draw_right_def wrap_def vadd_def vmap_def
          box_near_def np_round_def)
    have delta: "?delta = None"
      unfolding new
      unfolding i0
      by (simp add: engine_near_fields box_near_fields near_energy near_energy_start
          nan_sub_def)
    have ac: "\<not> accept_or_reject_nan ?s ?delta (rand1 ?d)"
      unfolding delta
      by (simp add: accept_or_reject_nan_def accept_or_reject_def engine_near_fields
          draw_left_def draw_right_def)
    obtain s' e' where r: "trial_move ?s (Some 0) ?d = Inr (s', e')"
      and f: "\<forall>j < length (coordinates ?g). j \<noteq> ?i \<longrightarrow>
                coordinates (Geom s') ! j = coordinates ?g ! j"
      and b: "if accept_or_reject_nan ?s ?delta (rand1 ?d)
              then coordinates (Geom s') ! ?i = ?new \<and> e' = nan_add (Some 0) ?delta
              else coordinates (Geom s') ! ?i = ?old \<and> e' = Some 0"
      using trial_move_atomic [OF h(1) [OF i0 g] h(2) [OF i0 g], of "Some 0"]
      unfolding Let_def by blast
    have "coordinates (Geom s') ! 1 = (2, 0, 0)"
      using f by (simp add: i0 engine_near_fields box_near_fields)
    moreover have "coordinates (Geom s') ! 0 = (0, 0, 0) \<and> e' = Some 0"
      using b ac
      unfolding delta
      unfolding new
      unfolding old
      unfolding i0
      by (simp add: nan_add_def)
    ultimately show ?thesis using r by blast
  qed
  have "i_particle (draw_left (1/2)) < length (coordinates (Geom (engine_near 1)))"
    "box_length (Geom (engine_near 1)) \<noteq> 0"
    by (simp_all add: draw_left_def engine_near_fields box_near_fields)
  then show ?thesis using a b c by blast
qed

section \<open>The arguments of the potential (C10)\<close>



lemma set_np_delete:
  assumes "x \<in> set (np_delete xs i)"
  shows "\<exists>j < length xs. j \<noteq> i \<and> x = xs ! j"
proof -
  from assms have "x \<in> set (take i xs) \<or> x \<in> set (drop (Suc i) xs)"
    by (simp add: np_delete_def)
  then show ?thesis
  proof
    assume "x \<in> set (take i xs)"
    then obtain j where "j < length (take i xs)" "x = take i xs ! j"
      by (auto simp: in_set_conv_nth)
    then show ?thesis by (intro exI [of _ j]) auto
  next
    assume "x \<in> set (drop (Suc i) xs)"
    then obtain j where "j < length (drop (Suc i) xs)" "x = drop (Suc i) xs ! j"
      by (auto simp: in_set_conv_nth)
    then show ?thesis by (intro exI [of _ "Suc i + j"]) auto
  qed
qed


lemma lj_arguments_pos_aux:
  assumes "i < length rij2"
    and "\<forall>j < length rij2. j \<noteq> i \<longrightarrow> 0 < rij2 ! j"
  shows "\<forall>r \<in> set (red_below_cutoff c2 i rij2). 0 < r"
proof
  fix r assume "r \<in> set (red_below_cutoff c2 i rij2)"
  then have "r \<in> set (np_delete rij2 i)"
    by (simp add: red_below_cutoff_def)
  then obtain j where "j < length rij2" "j \<noteq> i" "r = rij2 ! j"
    using set_np_delete [of r rij2 i] by auto
  then show "0 < r" using assms(2) by simp
qed



text \<open>The condition cannot be dropped: another particle at squared distance zero, inside
  a positive cutoff, is handed to the potential.\<close>

lemma lj_at_zero_reached:
  assumes "j < length rij2" and "j \<noteq> i" and "rij2 ! j = 0" and "0 < c2"
  shows "0 \<in> set (red_below_cutoff c2 i rij2)"
proof -
  have "rij2 ! j \<in> set (np_delete rij2 i)"
  proof (cases "j < i")
    case True
    then have l: "j < length (take i rij2)" using assms(1) by simp
    have "take i rij2 ! j \<in> set (take i rij2)" using l by (rule nth_mem)
    then have "rij2 ! j \<in> set (take i rij2)" using True by simp
    then show ?thesis by (simp add: np_delete_def)
  next
    case False
    then have "i < j" using assms(2) by simp
    then obtain k where k: "j = Suc (i + k)" using less_imp_Suc_add by blast
    have l: "k < length (drop (Suc i) rij2)" using assms(1) k by simp
    have "drop (Suc i) rij2 ! k \<in> set (drop (Suc i) rij2)" using l by (rule nth_mem)
    moreover have "drop (Suc i) rij2 ! k = rij2 ! j" using assms(1) k by simp
    ultimately have "rij2 ! j \<in> set (drop (Suc i) rij2)" by simp
    then show ?thesis by (simp add: np_delete_def)
  qed
  then show ?thesis using assms(3,4) by (simp add: red_below_cutoff_def)
qed

text \<open>On the model of the distance: the squared distance is never negative, and a
  particle with no other particle at squared distance zero has an energy that is not
  nan.\<close>

lemma minimum_image_distance_nonneg: "0 \<le> minimum_image_distance g p q"
proof -
  obtain x y z where p: "p = (x, y, z)" by (cases p) auto
  obtain x' y' z' where q: "q = (x', y', z')" by (cases q) auto
  show ?thesis unfolding p q mid_components by simp
qed

lemma np_sum_not_nan:
  assumes "\<forall>x \<in> set xs. x \<noteq> None"
  shows "\<exists>e. np_sum xs = Some e"
  using assms
proof (induction xs)
  case Nil
  then show ?case by simp
next
  case (Cons x xs)
  then obtain e where e: "np_sum xs = Some e" by auto
  obtain y where y: "x = Some y" using Cons.prems by (cases x) auto
  show ?case by (simp add: e y nan_add_def)
qed

lemma get_particle_energy_not_nan:
  assumes "i < length coords"
    and "\<forall>j < length coords. j \<noteq> i \<longrightarrow>
           minimum_image_distance g (coords ! i) (coords ! j) \<noteq> 0"
  shows "\<exists>e. get_particle_energy g en i coords = Inr (Some e)"
proof -
  let ?rij2 = "minimum_image_distances g (coords ! i) coords"
  have l: "i < length ?rij2" using assms(1) by (simp add: minimum_image_distances_def)
  have p: "\<forall>j < length ?rij2. j \<noteq> i \<longrightarrow> 0 < ?rij2 ! j"
  proof (intro allI impI)
    fix j assume j: "j < length ?rij2" "j \<noteq> i"
    then have "minimum_image_distance g (coords ! i) (coords ! j) \<noteq> 0"
      using assms(2) by (simp add: minimum_image_distances_def)
    then show "0 < ?rij2 ! j"
      using j minimum_image_distance_nonneg [of g "coords ! i" "coords ! j"]
      by (simp add: minimum_image_distances_def)
  qed
  have pos: "\<forall>r \<in> set (red_within_cutoff g en i coords). 0 < r"
    using lj_arguments_pos_aux [OF l p, of "cutoff2 en"]
    by (simp add: red_within_cutoff_def Let_def)
  have "\<forall>x \<in> set (map lennard_jones_potential (red_within_cutoff g en i coords)). x \<noteq> None"
  proof
    fix x assume "x \<in> set (map lennard_jones_potential (red_within_cutoff g en i coords))"
    then obtain r where "r \<in> set (red_within_cutoff g en i coords)"
      and x: "x = lennard_jones_potential r" by auto
    then have "r \<noteq> 0" using pos by auto
    then show "x \<noteq> None" unfolding x by (simp add: lennard_jones_potential_def Let_def)
  qed
  then have "\<exists>e. np_sum (map lennard_jones_potential (red_within_cutoff g en i coords)) = Some e"
    by (rule np_sum_not_nan)
  then show ?thesis using assms(1) by (simp add: get_particle_energy_def)
qed

section \<open>Zero distance in exact arithmetic\<close>

text \<open>In exact arithmetic the squared minimum-image distance of two points is zero
  exactly when they are periodic images of each other, which pairwise distinct points
  inside the half-open cell are not. With the rounding of float64 two such points can
  still be at computed distance zero (in the box of edge 2 the difference of
  0.9999999999999999 and -1.0 is rounded to 2.0), which is why C10 is stated on the
  computed array.\<close>

lemma np_round_whole: "is_whole (np_round x)"
  by (simp add: np_round_def Let_def is_whole_def)

lemma wrap1_zero_whole:
  assumes "L \<noteq> 0" and "wrap1 L c = 0"
  shows "is_whole (c / L)"
proof -
  have "c / L = np_round (c / L)"
    using assms by (simp add: wrap1_def field_simps)
  then show ?thesis using np_round_whole [of "c / L"] by simp
qed

lemma minimum_image_distance_pos:
  assumes "box_length g \<noteq> 0" and "\<not> periodic_images g p q"
  shows "0 < minimum_image_distance g p q"
proof -
  obtain x y z where p: "p = (x, y, z)" by (cases p) auto
  obtain x' y' z' where q: "q = (x', y', z')" by (cases q) auto
  let ?L = "box_length g"
  have "wrap1 ?L (x - x') \<noteq> 0 \<or> wrap1 ?L (y - y') \<noteq> 0 \<or> wrap1 ?L (z - z') \<noteq> 0"
    using assms(2) wrap1_zero_whole [OF assms(1)]
    unfolding p q periodic_images_def vsub_def by auto
  then have pos: "0 < (wrap1 ?L (x - x'))\<^sup>2 \<or> 0 < (wrap1 ?L (y - y'))\<^sup>2
                    \<or> 0 < (wrap1 ?L (z - z'))\<^sup>2"
    by simp
  have nn: "0 \<le> (wrap1 ?L (x - x'))\<^sup>2" "0 \<le> (wrap1 ?L (y - y'))\<^sup>2"
    "0 \<le> (wrap1 ?L (z - z'))\<^sup>2"
    by simp_all
  from pos have "0 < (wrap1 ?L (x - x'))\<^sup>2 + (wrap1 ?L (y - y'))\<^sup>2 + (wrap1 ?L (z - z'))\<^sup>2"
  proof (elim disjE)
    assume "0 < (wrap1 ?L (x - x'))\<^sup>2" then show ?thesis using nn by linarith
  next
    assume "0 < (wrap1 ?L (y - y'))\<^sup>2" then show ?thesis using nn by linarith
  next
    assume "0 < (wrap1 ?L (z - z'))\<^sup>2" then show ?thesis using nn by linarith
  qed
  then show ?thesis unfolding p q mid_components .
qed

lemma whole_small:
  assumes "is_whole x" and "\<bar>x\<bar> < 1"
  shows "x = 0"
proof -
  have "\<lfloor>x\<rfloor> = 0 \<or> \<lfloor>x\<rfloor> = -1" using assms(2) by (simp add: floor_eq_iff) linarith
  then show ?thesis using assms unfolding is_whole_def by auto
qed

lemma in_cell_not_periodic_images:
  assumes "0 < box_length g" and "in_cell g p" and "in_cell g q" and "p \<noteq> q"
  shows "\<not> periodic_images g p q"
proof
  assume pi: "periodic_images g p q"
  obtain x y z where p: "p = (x, y, z)" by (cases p) auto
  obtain x' y' z' where q: "q = (x', y', z')" by (cases q) auto
  have d: "c = c'" if "is_whole ((c - c') / box_length g)"
    "- box_length g / 2 \<le> c" "c < box_length g / 2"
    "- box_length g / 2 \<le> c'" "c' < box_length g / 2" for c c'
  proof -
    have "\<bar>c - c'\<bar> < box_length g" using that by arith
    then have "\<bar>(c - c') / box_length g\<bar> < 1" using assms(1) by simp
    then have "(c - c') / box_length g = 0" using that(1) by (intro whole_small)
    then show ?thesis using assms(1) by simp
  qed
  have "x = x'" "y = y'" "z = z'"
    using pi assms(2,3) unfolding p q periodic_images_def in_cell_def vsub_def
    by (auto intro: d)
  then show False using assms(4) p q by simp
qed

lemma image_shift_periodic_images:
  assumes "box_length g \<noteq> 0"
  shows "periodic_images g (image_shift g q k) q"
proof -
  obtain x y z where q: "q = (x, y, z)" by (cases q) auto
  obtain k1 k2 k3 where k: "k = (k1, k2, k3)" by (cases k) auto
  show ?thesis
    using assms by (simp add: q k image_shift_def periodic_images_def vsub_def is_whole_def)
qed

section \<open>The energy trace of a run (C1)\<close>

text \<open>What one iteration of the loop and the whole loop do to the step counter and to
  the energy array: the iteration that makes the step counter \<open>k\<close> writes index \<open>k\<close>
  of the array, in the per-particle form with the tail correction, and no other index.\<close>

lemma trial_move_frame:
  assumes "trial_move s e d = Inr (s', e')"
  shows "current_step s' = current_step s \<and> energy_array s' = energy_array s \<and>
         n_trials s' = n_trials s \<and> tune_displacement s' = tune_displacement s \<and>
         Energy s' = Energy s \<and>
         num_particles (Geom s') = num_particles (Geom s) \<and>
         volume (Geom s') = volume (Geom s) \<and>
         length (coordinates (Geom s')) = length (coordinates (Geom s))"
  using assms
  by (auto simp: trial_move_def Let_def split: sum.splits if_splits)

lemma adjust_displacement_frame:
  assumes "adjust_displacement s = Inr s'"
  shows "current_step s' = current_step s \<and> energy_array s' = energy_array s \<and>
         tune_displacement s' = tune_displacement s \<and> Energy s' = Energy s \<and>
         Geom s' = Geom s"
  using assms
  by (auto simp: adjust_displacement_def Let_def split: if_splits)

lemma mc_step_effect:
  assumes "mc_step t freq i d (s, e) = Inr (s', e')"
  shows "current_step s' = current_step s + 1 \<and>
         length (energy_array s') = length (energy_array s) \<and>
         current_step s' < length (energy_array s') \<and>
         energy_array s' ! current_step s'
           = map_option (\<lambda>x. (x + t) / real (num_particles (Geom s'))) e' \<and>
         (\<forall>j. j \<noteq> current_step s + 1 \<longrightarrow> energy_array s' ! j = energy_array s ! j) \<and>
         num_particles (Geom s') = num_particles (Geom s) \<and>
         length (coordinates (Geom s')) = length (coordinates (Geom s))"
proof -
  let ?s1 = "s\<lparr>current_step := current_step s + 1, n_trials := n_trials s + 1\<rparr>"
  from assms obtain s2 where
    t: "trial_move ?s1 e d = Inr (s2, e')"
    and r: "current_step s2 < length (energy_array s2)"
    and c: "s' = s2\<lparr>energy_array := (energy_array s2)[current_step s2 :=
                  map_option (\<lambda>x. (x + t) / real (num_particles (Geom s2))) e']\<rparr>
            \<or> adjust_displacement (s2\<lparr>energy_array := (energy_array s2)[current_step s2 :=
                  map_option (\<lambda>x. (x + t) / real (num_particles (Geom s2))) e']\<rparr>) = Inr s'"
    by (auto simp: mc_step_def Let_def split: sum.splits if_splits prod.splits)
  note f = trial_move_frame [OF t]
  let ?s3 = "s2\<lparr>energy_array := (energy_array s2)[current_step s2 :=
                  map_option (\<lambda>x. (x + t) / real (num_particles (Geom s2))) e']\<rparr>"
  have s3: "current_step s' = current_step ?s3 \<and> energy_array s' = energy_array ?s3 \<and>
            Geom s' = Geom ?s3"
    using c adjust_displacement_frame [of ?s3 s'] by auto
  show ?thesis using s3 f r by simp
qed

lemma run_loop_effect:
  assumes "run_loop t freq draws i n (s, e) = Inr (s', e')"
  shows "current_step s' = current_step s + n \<and>
         length (energy_array s') = length (energy_array s) \<and>
         (\<forall>j \<le> current_step s. energy_array s' ! j = energy_array s ! j) \<and>
         (0 < n \<longrightarrow> current_step s' < length (energy_array s') \<and>
            energy_array s' ! current_step s'
              = map_option (\<lambda>x. (x + t) / real (num_particles (Geom s'))) e') \<and>
         num_particles (Geom s') = num_particles (Geom s) \<and>
         length (coordinates (Geom s')) = length (coordinates (Geom s))"
  using assms
proof (induction n arbitrary: i s e)
  case 0
  then show ?case by simp
next
  case (Suc n)
  from Suc.prems obtain s1 e1 where
    st: "mc_step t freq i (draws i) (s, e) = Inr (s1, e1)"
    and rest: "run_loop t freq draws (Suc i) n (s1, e1) = Inr (s', e')"
    by (auto split: sum.splits)
  note m = mc_step_effect [OF st]
  note ih = Suc.IH [OF rest]
  show ?case
  proof (cases n)
    case 0
    then have "s' = s1" "e' = e1" using rest by simp_all
    then show ?thesis using m 0 by auto
  next
    case (Suc k)
    then show ?thesis using m ih by auto
  qed
qed

lemma run_loop_add:
  "run_loop t freq draws i (k + m) st =
     (case run_loop t freq draws i k st of
        Inl e \<Rightarrow> Inl e
      | Inr st' \<Rightarrow> run_loop t freq draws (i + k) m st')"
  by (induction k arbitrary: i st) (auto split: sum.splits)

text \<open>A run of a fresh engine that returns leaves a trace of length \<open>n_steps + 1\<close>.
  Index 0 holds the total pair energy of the start, as it is; every index \<open>k\<close> from 1
  to \<open>n_steps\<close> holds the accumulator after \<open>k\<close> iterations plus the tail correction,
  divided by the number of particles.\<close>

lemma run_trace:
  assumes fresh: "current_step s = 0" "energy_array s = []"
    and t: "calculate_tail_correction (Geom s) (Energy s) = Inr t"
    and e0: "calculate_total_pair_energy (Geom s) (Energy s) = Inr e0"
    and r: "run_state draws n freq s = Inr (s', e')"
  shows "length (energy_array s') = n + 1"
    and "energy_array s' ! 0 = e0"
    and "1 \<le> k \<Longrightarrow> k \<le> n \<Longrightarrow>
         \<exists>sk ek. run_loop t freq draws 1 k (allocated s n e0, e0) = Inr (sk, ek) \<and>
           energy_array s' ! k = map_option (\<lambda>x. (x + t) / real (num_particles (Geom s))) ek"
proof -
  let ?s0 = "allocated s n e0"
  have loop: "run_loop t freq draws 1 n (?s0, e0) = Inr (s', e')"
    using r by (simp add: run_state_def t e0 allocated_def Let_def)
  have a0: "current_step ?s0 = 0" "length (energy_array ?s0) = n + 1"
    "energy_array ?s0 ! 0 = e0" "num_particles (Geom ?s0) = num_particles (Geom s)"
    using fresh by (simp_all add: allocated_def)
  note eff = run_loop_effect [OF loop]
  show "length (energy_array s') = n + 1" using eff a0 by auto
  show "energy_array s' ! 0 = e0" using eff a0 by auto
  show "\<exists>sk ek. run_loop t freq draws 1 k (?s0, e0) = Inr (sk, ek) \<and>
           energy_array s' ! k = map_option (\<lambda>x. (x + t) / real (num_particles (Geom s))) ek"
    if k: "1 \<le> k" "k \<le> n"
  proof -
    have "run_loop t freq draws 1 (k + (n - k)) (?s0, e0) = Inr (s', e')"
      using loop k by simp
    then obtain sk ek where
      first: "run_loop t freq draws 1 k (?s0, e0) = Inr (sk, ek)"
      and rest: "run_loop t freq draws (1 + k) (n - k) (sk, ek) = Inr (s', e')"
      unfolding run_loop_add by (auto split: sum.splits)
    note f = run_loop_effect [OF first]
    note g = run_loop_effect [OF rest]
    have "current_step sk = k" using f a0 by simp
    moreover have "energy_array sk ! k
                     = map_option (\<lambda>x. (x + t) / real (num_particles (Geom s))) ek"
      using f a0 k by auto
    ultimately have "energy_array s' ! k
                       = map_option (\<lambda>x. (x + t) / real (num_particles (Geom s))) ek"
      using g by auto
    then show ?thesis using first by blast
  qed
qed


text \<open>The run of a fresh engine returns when the cutoff is not zero, there is at least
  one particle, and every drawn particle index is in range.\<close>

lemma mc_step_returns:
  assumes "i_particle d < length (coordinates (Geom s))"
    and "num_particles (Geom s) \<noteq> 0"
    and "current_step s + 1 < length (energy_array s)"
  shows "\<exists>s' e'. mc_step t freq i d (s, e) = Inr (s', e')"
proof -
  let ?s1 = "s\<lparr>current_step := current_step s + 1, n_trials := n_trials s + 1\<rparr>"
  have "i_particle d < length (coordinates (Geom ?s1))" using assms(1) by simp
  then obtain s2 e2 where t: "trial_move ?s1 e d = Inr (s2, e2)"
    using trial_move_cases [of d ?s1 e] by (auto split: if_splits)
  note f = trial_move_frame [OF t]
  let ?s3 = "s2\<lparr>energy_array := (energy_array s2)[current_step s2 :=
                  map_option (\<lambda>x. (x + t) / real (num_particles (Geom s2))) e2]\<rparr>"
  have "n_trials ?s3 \<noteq> 0" using f by simp
  then obtain s4 where a: "adjust_displacement ?s3 = Inr s4"
    by (simp add: adjust_displacement_def Let_def)
  have r: "current_step s2 < length (energy_array s2)" using f assms(3) by simp
  show ?thesis
    using assms(2) t r a by (simp add: mc_step_def Let_def)
qed

lemma run_loop_returns:
  assumes "\<forall>j. i_particle (draws j) < length (coordinates (Geom s))"
    and "num_particles (Geom s) \<noteq> 0"
    and "current_step s + n < length (energy_array s)"
  shows "\<exists>s' e'. run_loop t freq draws i n (s, e) = Inr (s', e')"
  using assms
proof (induction n arbitrary: i s e)
  case 0
  then show ?case by simp
next
  case (Suc n)
  obtain s1 e1 where st: "mc_step t freq i (draws i) (s, e) = Inr (s1, e1)"
    using mc_step_returns [of "draws i" s t freq i e] Suc.prems by auto
  note m = mc_step_effect [OF st]
  have "\<exists>s' e'. run_loop t freq draws (Suc i) n (s1, e1) = Inr (s', e')"
    using m Suc.prems by (intro Suc.IH) auto
  then show ?case using st by simp
qed

lemma sum_particle_energies_returns:
  assumes "\<forall>i \<in> set is. i < length (coordinates g)"
  shows "\<exists>r. sum_particle_energies g en is acc = Inr r"
  using assms by (induction "is" arbitrary: acc) (simp_all add: get_particle_energy_def)

lemma run_returns:
  assumes "current_step s = 0"
    and "cutoff (Energy s) \<noteq> 0"
    and "num_particles (Geom s) \<noteq> 0"
    and "\<forall>j. i_particle (draws j) < length (coordinates (Geom s))"
  shows "\<exists>s'. run draws n freq s = Inr s'"
proof -
  obtain t where t: "calculate_tail_correction (Geom s) (Energy s) = Inr t"
    using assms(2) by (simp add: calculate_tail_correction_def Let_def)
  obtain r where r: "sum_particle_energies (Geom s) (Energy s)
                       [0..<length (coordinates (Geom s))] (Some 0) = Inr r"
    using sum_particle_energies_returns [of "[0..<length (coordinates (Geom s))]" "Geom s"
        "Energy s" "Some 0"]
    by auto
  have e0: "calculate_total_pair_energy (Geom s) (Energy s)
              = Inr (map_option (\<lambda>e. e / 2) r)"
    by (simp add: calculate_total_pair_energy_def r)
  have "\<exists>s' e'. run_loop t freq draws 1 n
            (allocated s n (map_option (\<lambda>e. e / 2) r), map_option (\<lambda>e. e / 2) r)
          = Inr (s', e')"
    using assms by (intro run_loop_returns) (simp_all add: allocated_def)
  then show ?thesis
    by (auto simp: run_def run_state_def t e0 allocated_def Let_def)
qed


text \<open>The run of one step on the box of edge 10.\<close>

lemma red_box10:
  "red_within_cutoff box10 (Energy_init 1) 0 [(0, 0, 0), (5, 0, 0)] = []"
  "red_within_cutoff box10 (Energy_init 1) (Suc 0) [(0, 0, 0), (5, 0, 0)] = []"
  by (simp_all add: red_within_cutoff_def red_below_cutoff_def minimum_image_distances_def
      minimum_image_distance_def np_delete_def box10_def Energy_init_def vsub_def vmap_def
      vsum_def np_round_def)

lemma total_box10: "calculate_total_pair_energy box10 (Energy_init 1) = Inr (Some 0)"
proof -
  have u: "[0..<length (coordinates box10)] = [0, Suc 0]"
    by (simp add: box10_fields upt_rec)
  show ?thesis
    unfolding calculate_total_pair_energy_def u
    by (simp add: get_particle_energy_def box10_fields red_box10 nan_add_def)
qed

lemma tail_box10: "calculate_tail_correction box10 (Energy_init 1) = Inr (- (8 * pi / 1125))"
  by (simp add: calculate_tail_correction_def Energy_init_def box10_def)

lemma proposed_box10: "proposed_coordinate (engine a b arr k) draw0 = (0, 0, 0)"
  by (simp add: proposed_coordinate_def engine_fields draw0_def box10_def wrap_def vadd_def
      vmap_def np_round_def)

lemma moved_box10: "box10\<lparr>coordinates := [(0, 0, 0), (5, 0, 0)]\<rparr> = box10"
  by (simp add: box10_def)

lemma delta_box10: "trial_delta_e (engine a b arr k) draw0 = Some 0"
  unfolding trial_delta_e_def Let_def proposed_box10 engine_fields
  by (simp add: box10_fields draw0_def moved_box10 particle_energy_def red_box10 nan_sub_def)

lemma trial_box10:
  "trial_move (engine a b arr k) e draw0 = Inr (engine a (b + 1) arr k, e)"
proof -
  have i: "i_particle draw0 < length (coordinates (Geom (engine a b arr k)))"
    by (simp add: draw0_def engine_fields box10_fields)
  have acc: "trial_accepted (engine a b arr k) draw0"
    unfolding trial_accepted_def delta_box10
    by (simp add: accept_or_reject_nan_def accept_or_reject_def draw0_def)
  have m: "(coordinates box10)[i_particle draw0 := (0, 0, 0)] = [(0, 0, 0), (5, 0, 0)]"
    by (simp add: box10_fields draw0_def)
  show ?thesis
    unfolding trial_move_cases [OF i] delta_box10 proposed_box10 engine_fields m moved_box10
    using acc by (cases e) (simp_all add: engine_updates nan_add_def)
qed

lemma step_box10:
  "mc_step (- (8 * pi / 1125)) 100 1 draw0 (engine 0 0 [Some 0, Some 0] 0, Some 0)
     = Inr (engine 1 1 [Some 0, Some (- (4 * pi / 1125))] 1, Some 0)"
  unfolding mc_step_def prod.case Let_def engine_fields engine_updates trial_box10
  by (simp add: engine_fields engine_updates box10_fields np_mod_def)

lemma run_state_box10:
  "run_state draws0 (Suc 0) 100 (engine 0 0 [] 0)
     = Inr (engine 1 1 [Some 0, Some (- (4 * pi / 1125))] 1, Some 0)"
  unfolding run_state_def engine_fields tail_box10 total_box10
  using step_box10 by (simp add: engine_updates draws0_def)

text \<open>
  C1 at a concrete input: the engine constructed from the configuration file (two
  particles five apart in a box of edge 10, cutoff 1) runs one step whose trial move
  changes nothing. The total pair energy is 0 before and after the step and the tail
  correction is \<open>- 8 pi / 1125\<close>, so the claim asks for \<open>- 4 pi / 1125\<close> at both
  indices of the trace. The run returns a trace of length 2 whose index 1 holds that
  value and whose index 0 holds 0, the total pair energy itself.
\<close>

theorem run_trace_index0:
  "(case MC_init config_fs rnd_half ''file'' 1 (1 / 10) 1 None (Some ''config.txt'') True (Some 1)
    of Inl e \<Rightarrow> Inl e
     | Inr s \<Rightarrow> (case run draws0 1 100 s of Inl e \<Rightarrow> Inl e | Inr s' \<Rightarrow> Inr (energy_array s')))
   = Inr [Some 0, Some (- (4 * pi / 1125))] \<and>
   calculate_total_pair_energy box10 (Energy_init 1) = Inr (Some 0) \<and>
   calculate_tail_correction box10 (Energy_init 1) = Inr (- (8 * pi / 1125)) \<and>
   (0 + - (8 * pi / 1125)) / real (num_particles box10) = - (4 * pi / 1125) \<and>
   - (4 * pi / 1125) \<noteq> (0::real)"
  by (simp add: MC_init_config run_def run_state_box10 total_box10 tail_box10 box10_fields
      engine_fields)

end
